theory Spec2Isabelle
  imports Main
begin

section \<open>Values of the Go program\<close>

text \<open>
  \<^verbatim>\<open>java/builder.go\<close> declares the build rules of a Java module. This theory
  embeds its flag rendering (the methods of \<^verbatim>\<open>classpath\<close>) and the functions
  that declare a rule to the module context.

  A Go slice is either \<^verbatim>\<open>nil\<close> or allocated; both may have length 0, and the
  source tests \<^verbatim>\<open>*x == nil\<close>, so the two are kept apart. A method with a
  pointer receiver may be called on the nil pointer; reading through it is a run-time
  panic.
\<close>

datatype 'a slice = nil | Slice "'a list"

fun elems :: "'a slice \<Rightarrow> 'a list" where
  "elems nil = []"
| "elems (Slice xs) = xs"

definition len :: "'a slice \<Rightarrow> nat" where
  "len s = length (elems s)"

text \<open>\<^verbatim>\<open>append(s, t...)\<close>: with nothing to add the slice comes back as it is
  (a nil slice stays nil); otherwise the result is allocated.\<close>

fun append :: "'a slice \<Rightarrow> 'a slice \<Rightarrow> 'a slice" where
  "append s t = (if elems t = [] then s else Slice (elems s @ elems t))"

datatype 'a ptr = nilptr | Ptr 'a

datatype error = Panic string | NilPointerDereference

text \<open>\<^verbatim>\<open>android.Path\<close> is an interface; the code only reads \<^verbatim>\<open>String()\<close>.\<close>

datatype Path = PathOf string

fun String :: "Path \<Rightarrow> string" where
  "String (PathOf s) = s"

type_synonym Paths = "Path slice"
type_synonym classpath = "Path slice"

subsection \<open>The functions of package strings that the code calls\<close>

fun Join :: "string list \<Rightarrow> string \<Rightarrow> string" where
  "Join [] sep = []"
| "Join [a] sep = a"
| "Join (a # b # bs) sep = a @ sep @ Join (b # bs) sep"

definition HasSuffix :: "string \<Rightarrow> string \<Rightarrow> bool" where
  "HasSuffix s suffix =
     (length s \<ge> length suffix \<and> drop (length s - length suffix) s = suffix)"

definition TrimSuffix :: "string \<Rightarrow> string \<Rightarrow> string" where
  "TrimSuffix s suffix =
     (if HasSuffix s suffix then take (length s - length suffix) s else s)"

section \<open>Rendering a classpath\<close>

text \<open>
  \<^verbatim>\<open>func (x *classpath) Strings() []string\<close>: nil for the nil receiver, else a
  fresh slice of \<^verbatim>\<open>len(*x)\<close> strings.
\<close>

fun Strings :: "classpath ptr \<Rightarrow> string slice" where
  "Strings nilptr = nil"
| "Strings (Ptr x) = Slice (map String (elems x))"

fun JavaSourcepath :: "classpath ptr \<Rightarrow> error + string" where
  "JavaSourcepath nilptr = Inl NilPointerDereference"
| \<open>JavaSourcepath (Ptr x) =
     (if len x > 0 then Inr (''-sourcepath '' @ Join (elems (Strings (Ptr x))) '':'')
      else Inr ''-sourcepath ""'')\<close>

fun JavaClasspath :: "classpath ptr \<Rightarrow> error + string" where
  "JavaClasspath nilptr = Inl NilPointerDereference"
| "JavaClasspath (Ptr x) =
     (if len x > 0 then Inr (''-classpath '' @ Join (elems (Strings (Ptr x))) '':'')
      else Inr '''')"

fun JavaProcessorpath :: "classpath ptr \<Rightarrow> error + string" where
  "JavaProcessorpath nilptr = Inl NilPointerDereference"
| "JavaProcessorpath (Ptr x) =
     (if len x > 0 then Inr (''-processorpath '' @ Join (elems (Strings (Ptr x))) '':'')
      else Inr '''')"

fun JavaBootClasspath :: "classpath ptr \<Rightarrow> bool \<Rightarrow> error + string" where
  "JavaBootClasspath nilptr forceEmpty = Inl NilPointerDereference"
| \<open>JavaBootClasspath (Ptr x) forceEmpty =
     (if len x > 0 then Inr (''-bootclasspath '' @ Join (elems (Strings (Ptr x))) '':'')
      else if forceEmpty then Inr ''-bootclasspath ""''
      else Inr '''')\<close>

fun JavaSystemModules :: "classpath ptr \<Rightarrow> bool \<Rightarrow> error + string" where
  "JavaSystemModules nilptr forceEmpty = Inl NilPointerDereference"
| "JavaSystemModules (Ptr x) forceEmpty =
     (if len x > 1 then Inl (Panic ''more than one system module'')
      else if len x = 1 then
        Inr (''--system='' @ TrimSuffix (String (elems x ! 0)) ''lib/modules'')
      else if forceEmpty then Inr ''--system=none''
      else Inr '''')"

fun DesugarBootClasspath :: "classpath ptr \<Rightarrow> string slice" where
  "DesugarBootClasspath nilptr = nil"
| "DesugarBootClasspath (Ptr nil) = nil"
| "DesugarBootClasspath (Ptr (Slice xs)) =
     Slice (map (\<lambda>v. ''--bootclasspath_entry '' @ String v) xs)"

fun DesugarClasspath :: "classpath ptr \<Rightarrow> string slice" where
  "DesugarClasspath nilptr = nil"
| "DesugarClasspath (Ptr nil) = nil"
| "DesugarClasspath (Ptr (Slice xs)) =
     Slice (map (\<lambda>v. ''--classpath_entry '' @ String v) xs)"

section \<open>Rules and their declaration\<close>

text \<open>
  A rule is registered once with its command template, the tools the command depends on,
  an optional response file and the names of its parameters. The templates are the
  string literals of the source.
\<close>

record Rule =
  ruleName :: string
  Command :: string
  CommandDeps :: "string list"
  Rspfile :: string
  RspfileContent :: string
  argNames :: "string list"

definition javac :: Rule where
  \<open>javac = \<lparr>
     ruleName = ''javac'',
     Command = ''rm -rf "$outDir" "$annoDir" && mkdir -p "$outDir" "$annoDir" && '' @
       ''${config.JavacWrapper}${config.JavacCmd} ${config.JavacHeapFlags} ${config.CommonJdkFlags} '' @
       ''$javacFlags $sourcepath $bootClasspath $classpath '' @
       ''-source $javaVersion -target $javaVersion '' @
       ''-d $outDir -s $annoDir @$out.rsp && '' @
       ''${config.SoongZipCmd} -jar -o $out -C $outDir -D $outDir'',
     CommandDeps = [''${config.JavacCmd}'', ''${config.SoongZipCmd}''],
     Rspfile = ''$out.rsp'',
     RspfileContent = ''$in'',
     argNames = [''javacFlags'', ''sourcepath'', ''bootClasspath'', ''classpath'',
       ''outDir'', ''annoDir'', ''javaVersion'']\<rparr>\<close>

definition errorprone :: Rule where
  \<open>errorprone = \<lparr>
     ruleName = ''errorprone'',
     Command = ''rm -rf "$outDir" "$annoDir" && mkdir -p "$outDir" "$annoDir" && '' @
       ''${config.ErrorProneCmd} '' @
       ''$javacFlags $sourcepath $bootClasspath $classpath '' @
       ''-source $javaVersion -target $javaVersion '' @
       ''-d $outDir -s $annoDir @$out.rsp && '' @
       ''${config.SoongZipCmd} -jar -o $out -C $outDir -D $outDir'',
     CommandDeps = [''${config.JavaCmd}'', ''${config.ErrorProneJavacJar}'',
       ''${config.ErrorProneJar}'', ''${config.SoongZipCmd}''],
     Rspfile = ''$out.rsp'',
     RspfileContent = ''$in'',
     argNames = [''javacFlags'', ''sourcepath'', ''bootClasspath'', ''classpath'',
       ''outDir'', ''annoDir'', ''javaVersion'']\<rparr>\<close>

definition combineJar :: Rule where
  \<open>combineJar = \<lparr>
     ruleName = ''combineJar'',
     Command = ''${config.MergeZipsCmd} -j $jarArgs $out $in'',
     CommandDeps = [''${config.MergeZipsCmd}''],
     Rspfile = '''',
     RspfileContent = '''',
     argNames = [''jarArgs'']\<rparr>\<close>

definition desugar :: Rule where
  \<open>desugar = \<lparr>
     ruleName = ''desugar'',
     Command = ''rm -rf $dumpDir && mkdir -p $dumpDir && '' @
       ''${config.JavaCmd} '' @
       ''-Djdk.internal.lambda.dumpProxyClasses=$$(cd $dumpDir && pwd) '' @
       ''$javaFlags '' @
       ''-jar ${config.DesugarJar} $classpathFlags $desugarFlags '' @
       ''-i $in -o $out'',
     CommandDeps = [''${config.DesugarJar}''],
     Rspfile = '''',
     RspfileContent = '''',
     argNames = [''javaFlags'', ''classpathFlags'', ''desugarFlags'', ''dumpDir'']\<rparr>\<close>

record javaBuilderFlags =
  javacFlags :: string
  dxFlags :: string
  bootClasspath :: classpath
  classpath :: classpath
  systemModules :: classpath
  desugarFlags :: string
  aidlFlags :: string
  javaVersion :: string
  protoFlags :: string
  protoOutFlag :: string

text \<open>
  \<^verbatim>\<open>android.ModuleBuildParams\<close>, with the fields this file sets. A field the
  source leaves out has Go's zero value: no \<^verbatim>\<open>Input\<close>, a nil slice.
\<close>

record ModuleBuildParams =
  Rule :: Rule
  Description :: string
  Output :: Path
  Input :: "Path option"
  Inputs :: Paths
  Implicits :: Paths
  Args :: "string \<rightharpoonup> string"

text \<open>
  \<^verbatim>\<open>android.ModuleContext\<close> is an interface declared outside this file. The
  code reads \<^verbatim>\<open>ctx.Device()\<close>, \<^verbatim>\<open>ctx.AConfig().UseOpenJDK9()\<close> and
  the string of \<^verbatim>\<open>android.PathForModuleOut(ctx, p)\<close>; these are fields of the
  context. The context also holds what the module has reported and declared so far.
\<close>

record ModuleContext =
  Device :: bool
  UseOpenJDK9 :: bool
  PathForModuleOut :: "string \<Rightarrow> string"
  errs :: "string list"
  builds :: "ModuleBuildParams list"

text \<open>
  Modelled from the spec: \<^verbatim>\<open>ctx.ModuleBuild\<close> belongs to package android,
  which is not part of the sources at hand. The spec has every operation declare one
  invocation (rule, description, output, inputs, implicit dependencies, named arguments)
  to the build-graph engine and return with no result; the declarations are kept in
  order in \<^const>\<open>builds\<close>.
\<close>

definition ModuleBuild :: "ModuleContext \<Rightarrow> ModuleBuildParams \<Rightarrow> ModuleContext" where
  "ModuleBuild ctx params = ctx\<lparr>builds := builds ctx @ [params]\<rparr>"

section \<open>The stages\<close>

text \<open>
  \<^verbatim>\<open>transformJavaToClasses\<close>. The receivers of the rendering methods are the
  addresses of a parameter and of fields of \<^verbatim>\<open>flags\<close>. The panic of
  \<^verbatim>\<open>JavaSystemModules\<close> leaves the function before \<^verbatim>\<open>ModuleBuild\<close>.
\<close>

definition transformJavaToClasses ::
  "ModuleContext \<Rightarrow> Path \<Rightarrow> Paths \<Rightarrow> classpath \<Rightarrow> javaBuilderFlags \<Rightarrow> Paths \<Rightarrow>
     string \<Rightarrow> string \<Rightarrow> Rule \<Rightarrow> error + ModuleContext" where
  "transformJavaToClasses ctx outputFile srcFiles srcJars flags deps intermediatesSuffix desc rule =
     (let deps1 = append deps srcJars in
      case (if javaVersion flags = ''1.9'' then
              (let deps2 = append deps1 (systemModules flags) in
               case JavaSystemModules (Ptr (systemModules flags)) (Device ctx) of
                 Inl e \<Rightarrow> Inl e
               | Inr s \<Rightarrow> Inr (deps2, s))
            else
              (let deps2 = append deps1 (bootClasspath flags) in
               case JavaBootClasspath (Ptr (bootClasspath flags)) (Device ctx) of
                 Inl e \<Rightarrow> Inl e
               | Inr s \<Rightarrow> Inr (deps2, s))) of
        Inl e \<Rightarrow> Inl e
      | Inr (deps2, bootClasspath') \<Rightarrow>
          (let deps3 = append deps2 (classpath flags) in
           case JavaSourcepath (Ptr srcJars) of
             Inl e \<Rightarrow> Inl e
           | Inr sourcepath' \<Rightarrow>
               (case JavaClasspath (Ptr (classpath flags)) of
                  Inl e \<Rightarrow> Inl e
                | Inr classpath' \<Rightarrow>
                    Inr (ModuleBuild ctx \<lparr>
                      Rule = rule,
                      Description = desc,
                      Output = outputFile,
                      Input = None,
                      Inputs = srcFiles,
                      Implicits = deps3,
                      Args = [
                        ''javacFlags'' \<mapsto> javacFlags flags,
                        ''bootClasspath'' \<mapsto> bootClasspath',
                        ''sourcepath'' \<mapsto> sourcepath',
                        ''classpath'' \<mapsto> classpath',
                        ''outDir'' \<mapsto> PathForModuleOut ctx (''classes'' @ intermediatesSuffix),
                        ''annoDir'' \<mapsto> PathForModuleOut ctx (''anno'' @ intermediatesSuffix),
                        ''javaVersion'' \<mapsto> javaVersion flags]\<rparr>))))"

definition TransformJavaToClasses ::
  "ModuleContext \<Rightarrow> Path \<Rightarrow> Paths \<Rightarrow> classpath \<Rightarrow> javaBuilderFlags \<Rightarrow> Paths \<Rightarrow>
     error + ModuleContext" where
  "TransformJavaToClasses ctx outputFile srcFiles srcJars flags deps =
     transformJavaToClasses ctx outputFile srcFiles srcJars flags deps '''' ''javac'' javac"

text \<open>
  \<^verbatim>\<open>RunErrorProne\<close> reads the variable \<^verbatim>\<open>config.ErrorProneJar\<close> and calls
  \<^verbatim>\<open>ctx.ModuleErrorf\<close>. Both are declared outside this file and are parameters
  here: the value of the variable, and what the call does to the context, returning it
  (\<open>Inr\<close>) or not returning (\<open>Inl\<close>). The source has no \<^verbatim>\<open>return\<close> after the
  call, so control goes on to \<^verbatim>\<open>transformJavaToClasses\<close> whenever the call
  returns.
\<close>

definition RunErrorProne ::
  "(ModuleContext \<Rightarrow> string \<Rightarrow> error + ModuleContext) \<Rightarrow> string \<Rightarrow>
     ModuleContext \<Rightarrow> Path \<Rightarrow> Paths \<Rightarrow> classpath \<Rightarrow> javaBuilderFlags \<Rightarrow>
     error + ModuleContext" where
  "RunErrorProne ModuleErrorf ErrorProneJar ctx outputFile srcFiles srcJars flags =
     (case (if ErrorProneJar = '''' then
              ModuleErrorf ctx ''cannot build with Error Prone, missing external/error_prone?''
            else Inr ctx) of
        Inl e \<Rightarrow> Inl e
      | Inr ctx1 \<Rightarrow>
          transformJavaToClasses ctx1 outputFile srcFiles srcJars flags nil
            ''-errorprone'' ''errorprone'' errorprone)"

text \<open>Two behaviours of \<^verbatim>\<open>ModuleErrorf\<close>: a context that collects the errors of a
  module and goes on, and one that stops at the first.\<close>

definition collectError :: "ModuleContext \<Rightarrow> string \<Rightarrow> error + ModuleContext" where
  "collectError ctx msg = Inr (ctx\<lparr>errs := errs ctx @ [msg]\<rparr>)"

definition abortOnError :: "ModuleContext \<Rightarrow> string \<Rightarrow> error + ModuleContext" where
  "abortOnError ctx msg = Inl (Panic msg)"

text \<open>\<^verbatim>\<open>android.OptionalPath\<close>: \<^verbatim>\<open>Valid()\<close> holds when a path is there.\<close>

type_synonym OptionalPath = "Path option"

definition TransformJarsToJar ::
  "ModuleContext \<Rightarrow> Path \<Rightarrow> Paths \<Rightarrow> OptionalPath \<Rightarrow> bool \<Rightarrow> ModuleContext" where
  "TransformJarsToJar ctx outputFile jars manifest stripDirs =
     (let (jarArgs1, deps) =
            (case manifest of
               Some m \<Rightarrow> (append nil (Slice [''-m '' @ String m]), append nil (Slice [m]))
             | None \<Rightarrow> (nil, nil));
          jarArgs = (if stripDirs then append jarArgs1 (Slice [''-D'']) else jarArgs1)
      in ModuleBuild ctx \<lparr>
           Rule = combineJar,
           Description = ''combine jars'',
           Output = outputFile,
           Input = None,
           Inputs = jars,
           Implicits = deps,
           Args = [''jarArgs'' \<mapsto> Join (elems jarArgs) '' '']\<rparr>)"

definition TransformDesugar ::
  "ModuleContext \<Rightarrow> Path \<Rightarrow> Path \<Rightarrow> javaBuilderFlags \<Rightarrow> ModuleContext" where
  "TransformDesugar ctx outputFile classesJar flags =
     (let dumpDir = PathForModuleOut ctx ''desugar_dumped_classes'';
          javaFlags = (if UseOpenJDK9 ctx
                       then ''--add-opens java.base/java.lang.invoke=ALL-UNNAMED'' else '''');
          desugarFlags1 = append nil (DesugarBootClasspath (Ptr (bootClasspath flags)));
          desugarFlags2 = append desugarFlags1 (DesugarClasspath (Ptr (classpath flags)));
          deps1 = append nil (bootClasspath flags);
          deps2 = append deps1 (classpath flags)
      in ModuleBuild ctx \<lparr>
           Rule = desugar,
           Description = ''desugar'',
           Output = outputFile,
           Input = Some classesJar,
           Inputs = nil,
           Implicits = deps2,
           Args = [
             ''dumpDir'' \<mapsto> dumpDir,
             ''javaFlags'' \<mapsto> javaFlags,
             ''classpathFlags'' \<mapsto> Join (elems desugarFlags2) '' '',
             ''desugarFlags'' \<mapsto> desugarFlags flags]\<rparr>)"

section \<open>The command of a declared invocation\<close>

text \<open>
  Modelled from the spec: the build-graph engine, which turns a rule's template and an
  invocation into a command, is outside the sources at hand. The spec has a command
  template refer to named parameters by placeholder, and an invocation map each parameter
  name to its rendered string. The placeholders of the templates in this file are
  \<^verbatim>\<open>$name\<close> (letters, digits, \<^verbatim>\<open>_\<close> and \<^verbatim>\<open>-\<close>), \<^verbatim>\<open>${name}\<close>, and
  \<^verbatim>\<open>$$\<close> for a dollar sign. \<^verbatim>\<open>$in\<close> and \<^verbatim>\<open>$out\<close> are the inputs and
  the output of the invocation, separated by spaces; a parameter of the rule has the
  value the invocation gives it, taken as it is; the \<^verbatim>\<open>config\<close> variables are a
  parameter.
\<close>

definition isVarChar :: "char \<Rightarrow> bool" where
  "isVarChar c = (c \<in> set
     ''abcdefghijklmnopqrstuvwxyzABCDEFGHIJKLMNOPQRSTUVWXYZ0123456789_-'')"

datatype scan = Text | Dollar | Braces string | Simple string

fun expand :: "(string \<Rightarrow> string) \<Rightarrow> scan \<Rightarrow> string \<Rightarrow> string" where
  "expand env Text [] = []"
| "expand env Dollar [] = []"
| "expand env (Braces v) [] = []"
| "expand env (Simple v) [] = env v"
| "expand env Text (c # cs) =
     (if c = CHR ''$'' then expand env Dollar cs else c # expand env Text cs)"
| "expand env Dollar (c # cs) =
     (if c = CHR ''$'' then c # expand env Text cs
      else if c = CHR ''{'' then expand env (Braces []) cs
      else if isVarChar c then expand env (Simple [c]) cs
      else expand env Text cs)"
| "expand env (Braces v) (c # cs) =
     (if c = CHR ''}'' then env v @ expand env Text cs
      else expand env (Braces (v @ [c])) cs)"
| "expand env (Simple v) (c # cs) =
     (if isVarChar c then expand env (Simple (v @ [c])) cs
      else if c = CHR ''$'' then env v @ expand env Dollar cs
      else env v @ c # expand env Text cs)"

definition inputs :: "ModuleBuildParams \<Rightarrow> Path list" where
  "inputs p = elems (Inputs p) @ (case Input p of None \<Rightarrow> [] | Some i \<Rightarrow> [i])"

definition ninjaEnv :: "(string \<Rightarrow> string) \<Rightarrow> ModuleBuildParams \<Rightarrow> string \<Rightarrow> string" where
  "ninjaEnv config p v =
     (if v = ''in'' then Join (map String (inputs p)) '' ''
      else if v = ''out'' then String (Output p)
      else case Args p v of Some s \<Rightarrow> s | None \<Rightarrow> config v)"

definition command :: "(string \<Rightarrow> string) \<Rightarrow> ModuleBuildParams \<Rightarrow> string" where
  "command config p = expand (ninjaEnv config p) Text (Command (Rule p))"

definition rspfileContent :: "(string \<Rightarrow> string) \<Rightarrow> ModuleBuildParams \<Rightarrow> string" where
  "rspfileContent config p = expand (ninjaEnv config p) Text (RspfileContent (Rule p))"

section \<open>Reading a result, and inputs to run the stages on\<close>

text \<open>The invocations a stage has declared; none when it panicked.\<close>

fun declared :: "error + ModuleContext \<Rightarrow> ModuleBuildParams list" where
  "declared (Inl e) = []"
| "declared (Inr ctx) = builds ctx"

text \<open>The value an invocation gives to a parameter of its rule.\<close>

definition arg :: "string \<Rightarrow> ModuleBuildParams \<Rightarrow> string option" where
  "arg name p = Args p name"

definition exampleContext :: "bool \<Rightarrow> ModuleContext" where
  "exampleContext device = \<lparr>
     Device = device,
     UseOpenJDK9 = False,
     PathForModuleOut = (\<lambda>p. ''out/m/'' @ p),
     errs = [],
     builds = []\<rparr>"

definition exampleFlags :: "string \<Rightarrow> javaBuilderFlags" where
  "exampleFlags v = \<lparr>
     javacFlags = ''-Xlint'',
     dxFlags = '''',
     bootClasspath = Slice [PathOf ''core.jar'', PathOf ''ext.jar''],
     classpath = Slice [PathOf ''lib.jar''],
     systemModules = Slice [PathOf ''jdk9/lib/modules''],
     desugarFlags = ''--min_sdk_version 24'',
     aidlFlags = '''',
     javaVersion = v,
     protoFlags = '''',
     protoOutFlag = ''''\<rparr>"

definition emptyFlags :: "string \<Rightarrow> javaBuilderFlags" where
  "emptyFlags v = \<lparr>
     javacFlags = ''-Xlint'',
     dxFlags = '''',
     bootClasspath = nil,
     classpath = nil,
     systemModules = nil,
     desugarFlags = '''',
     aidlFlags = '''',
     javaVersion = v,
     protoFlags = '''',
     protoOutFlag = ''''\<rparr>"

definition exampleConfig :: "string \<Rightarrow> string" where
  "exampleConfig v =
     (if v = ''config.JavacCmd'' then ''javac''
      else if v = ''config.JavacHeapFlags'' then ''-J-Xmx2048M''
      else if v = ''config.CommonJdkFlags'' then ''-encoding UTF-8''
      else if v = ''config.SoongZipCmd'' then ''soong_zip''
      else if v = ''config.MergeZipsCmd'' then ''merge_zips''
      else if v = ''config.JavaCmd'' then ''java''
      else if v = ''config.DesugarJar'' then ''desugar.jar''
      else if v = ''config.ErrorProneCmd'' then ''java -jar error_prone.jar''
      else '''')"

section \<open>Properties of the rendering methods\<close>

lemma Join_Cons: "Join (a # as) sep = a @ concat (map (\<lambda>b. sep @ b) as)"
  by (induction as arbitrary: a) auto

lemma HasSuffix_iff: "HasSuffix s suffix \<longleftrightarrow> (\<exists>r. s = r @ suffix)"
proof
  assume h: "HasSuffix s suffix"
  have "s = take (length s - length suffix) s @ drop (length s - length suffix) s"
    by simp
  with h show "\<exists>r. s = r @ suffix"
    unfolding HasSuffix_def by metis
next
  assume "\<exists>r. s = r @ suffix"
  then show "HasSuffix s suffix"
    by (auto simp: HasSuffix_def)
qed

lemma TrimSuffix_append: "TrimSuffix (r @ suffix) suffix = r"
  by (simp add: TrimSuffix_def HasSuffix_def)

lemma TrimSuffix_other: "\<forall>r. s \<noteq> r @ suffix \<Longrightarrow> TrimSuffix s suffix = s"
  by (simp add: TrimSuffix_def HasSuffix_iff)

lemma len_0_iff: "len x = 0 \<longleftrightarrow> x = nil \<or> x = Slice []"
  by (cases x) (auto simp: len_def)

text \<open>
  The five \<^verbatim>\<open>Java*\<close> methods read \<^verbatim>\<open>len(*x)\<close> first, so the nil
  \<^emph>\<open>pointer\<close> is no receiver for them; \<^verbatim>\<open>Strings\<close> and the two desugar
  methods test \<^verbatim>\<open>x == nil\<close>. Every call in this file takes the address of a
  variable or of a field.
\<close>

lemma nil_receiver:
  "JavaSourcepath nilptr = Inl NilPointerDereference"
  "JavaClasspath nilptr = Inl NilPointerDereference"
  "JavaProcessorpath nilptr = Inl NilPointerDereference"
  "JavaBootClasspath nilptr forceEmpty = Inl NilPointerDereference"
  "JavaSystemModules nilptr forceEmpty = Inl NilPointerDereference"
  "Strings nilptr = nil"
  "DesugarBootClasspath nilptr = nil"
  "DesugarClasspath nilptr = nil"
  by simp_all

text \<open>
  Claim C1. For every classpath \<open>x\<close> and every \<open>forceEmpty\<close>, \<^verbatim>\<open>JavaSystemModules\<close>
  returns the empty string when \<open>x\<close> has no entry and \<open>forceEmpty\<close> is false, and
  \<^verbatim>\<open>--system=none\<close> when \<open>x\<close> has no entry and \<open>forceEmpty\<close> is true. With one
  entry it returns \<^verbatim>\<open>--system=\<close> and the entry's path with the suffix
  \<^verbatim>\<open>lib/modules\<close> cut off. With two entries or more it panics with the message
  \<^verbatim>\<open>more than one system module\<close>, and no string is returned.
\<close>

theorem JavaSystemModules_cases:
  "(len x = 0 \<and> \<not> forceEmpty \<longrightarrow> JavaSystemModules (Ptr x) forceEmpty = Inr '''') \<and>
   (len x = 0 \<and> forceEmpty \<longrightarrow> JavaSystemModules (Ptr x) forceEmpty = Inr ''--system=none'') \<and>
   (\<forall>p r. elems x = [p] \<and> String p = r @ ''lib/modules'' \<longrightarrow>
      JavaSystemModules (Ptr x) forceEmpty = Inr (''--system='' @ r)) \<and>
   (\<forall>p. elems x = [p] \<longrightarrow>
      JavaSystemModules (Ptr x) forceEmpty =
        Inr (''--system='' @ TrimSuffix (String p) ''lib/modules'')) \<and>
   (len x \<ge> 2 \<longrightarrow>
      JavaSystemModules (Ptr x) forceEmpty = Inl (Panic ''more than one system module''))"
  by (auto simp: len_def TrimSuffix_append)

theorem JavaSystemModules_cases_witness:
  "JavaSystemModules (Ptr nil) False = Inr '''' \<and>
   JavaSystemModules (Ptr (Slice [])) True = Inr ''--system=none'' \<and>
   JavaSystemModules (Ptr (Slice [PathOf ''prebuilts/jdk/jdk9/lib/modules''])) True =
     Inr ''--system=prebuilts/jdk/jdk9/'' \<and>
   JavaSystemModules (Ptr (Slice [PathOf ''a/lib/modules'', PathOf ''b/lib/modules''])) False =
     Inl (Panic ''more than one system module'')"
  using JavaSystemModules_cases [of nil False] JavaSystemModules_cases [of "Slice []" True]
    JavaSystemModules_cases [of "Slice [PathOf ''prebuilts/jdk/jdk9/lib/modules'']" True]
    JavaSystemModules_cases [of "Slice [PathOf ''a/lib/modules'', PathOf ''b/lib/modules'']" False]
  by (simp add: len_def)

text \<open>
  Claim C5. For every classpath \<open>C\<close>, \<^verbatim>\<open>JavaSourcepath\<close> on an empty \<open>C\<close> (nil or
  of length 0) is the explicit empty flag \<^verbatim>\<open>-sourcepath ""\<close>, never the empty
  string; on a non-empty \<open>C\<close> it is \<^verbatim>\<open>-sourcepath\<close>, a space, and the entries in
  their order with \<^verbatim>\<open>:\<close> between them.
\<close>

theorem JavaSourcepath_forms:
  \<open>(len C = 0 \<longrightarrow> JavaSourcepath (Ptr C) = Inr ''-sourcepath ""'') \<and>
   (\<forall>e es. elems C = e # es \<longrightarrow>
      JavaSourcepath (Ptr C) =
        Inr (''-sourcepath '' @ String e @ concat (map (\<lambda>p. '':'' @ String p) es))) \<and>
   JavaSourcepath (Ptr C) \<noteq> Inr ''''\<close>
  by (auto simp: len_def Join_Cons comp_def)

theorem JavaSourcepath_forms_witness:
  \<open>JavaSourcepath (Ptr nil) = Inr ''-sourcepath ""'' \<and>
   JavaSourcepath (Ptr (Slice [])) = Inr ''-sourcepath ""'' \<and>
   JavaSourcepath (Ptr (Slice [PathOf ''a.srcjar'', PathOf ''b.srcjar'', PathOf ''c.srcjar''])) =
     Inr ''-sourcepath a.srcjar:b.srcjar:c.srcjar''\<close>
  using JavaSourcepath_forms [of nil] JavaSourcepath_forms [of "Slice []"]
    JavaSourcepath_forms [of "Slice [PathOf ''a.srcjar'', PathOf ''b.srcjar'', PathOf ''c.srcjar'']"]
  by (simp add: len_def)

text \<open>
  Claim C6. For every classpath \<open>C\<close>, \<^verbatim>\<open>JavaClasspath\<close> on an empty \<open>C\<close> is the
  empty string (the flag is left out); on a non-empty \<open>C\<close> it is \<^verbatim>\<open>-classpath\<close>,
  a space, and the entries in their order with \<^verbatim>\<open>:\<close> between them.
\<close>

theorem JavaClasspath_forms:
  "(len C = 0 \<longrightarrow> JavaClasspath (Ptr C) = Inr '''') \<and>
   (\<forall>e es. elems C = e # es \<longrightarrow>
      JavaClasspath (Ptr C) =
        Inr (''-classpath '' @ String e @ concat (map (\<lambda>p. '':'' @ String p) es)))"
  by (auto simp: len_def Join_Cons comp_def)

theorem JavaClasspath_forms_witness:
  "JavaClasspath (Ptr nil) = Inr '''' \<and>
   JavaClasspath (Ptr (Slice [])) = Inr '''' \<and>
   JavaClasspath (Ptr (Slice [PathOf ''b.jar'', PathOf ''a.jar'', PathOf ''c.jar''])) =
     Inr ''-classpath b.jar:a.jar:c.jar''"
  using JavaClasspath_forms [of nil] JavaClasspath_forms [of "Slice []"]
    JavaClasspath_forms [of "Slice [PathOf ''b.jar'', PathOf ''a.jar'', PathOf ''c.jar'']"]
  by (simp add: len_def)

text \<open>
  Claim C10. For a classpath with exactly one entry whose path does not end in
  \<^verbatim>\<open>lib/modules\<close>, \<^verbatim>\<open>JavaSystemModules\<close> returns \<^verbatim>\<open>--system=\<close> and the
  whole path, unchanged, and does not fail.
\<close>

theorem JavaSystemModules_no_suffix:
  "elems x = [p] \<Longrightarrow> \<forall>r. String p \<noteq> r @ ''lib/modules'' \<Longrightarrow>
     JavaSystemModules (Ptr x) forceEmpty = Inr (''--system='' @ String p)"
  by (simp add: len_def TrimSuffix_other)

theorem JavaSystemModules_no_suffix_witness:
  "JavaSystemModules (Ptr (Slice [PathOf ''prebuilts/jdk/jdk9''])) False =
     Inr ''--system=prebuilts/jdk/jdk9''"
proof -
  have "\<forall>r. String (PathOf ''prebuilts/jdk/jdk9'') \<noteq> r @ ''lib/modules''"
    by (simp add: append_eq_conv_conj)
  from JavaSystemModules_no_suffix [OF _ this, of "Slice [PathOf ''prebuilts/jdk/jdk9'']" False]
  show ?thesis by simp
qed

text \<open>
  Claim C9. Each rendering method returns, without a panic, on an empty classpath, be it
  the nil slice or an allocated slice of length 0, and for both values of \<open>forceEmpty\<close>
  where there is one: the sourcepath form is the explicit empty flag, the classpath and
  processorpath forms are the empty string, the boot-classpath and system-module forms are
  the explicit empty flag under \<open>forceEmpty\<close> and the empty string otherwise, and the
  per-entry forms and \<^verbatim>\<open>Strings\<close> have no element.
\<close>

theorem rendering_total_on_empty:
  \<open>len x = 0 \<Longrightarrow>
     JavaSourcepath (Ptr x) = Inr ''-sourcepath ""'' \<and>
     JavaClasspath (Ptr x) = Inr '''' \<and>
     JavaProcessorpath (Ptr x) = Inr '''' \<and>
     JavaBootClasspath (Ptr x) True = Inr ''-bootclasspath ""'' \<and>
     JavaBootClasspath (Ptr x) False = Inr '''' \<and>
     JavaSystemModules (Ptr x) True = Inr ''--system=none'' \<and>
     JavaSystemModules (Ptr x) False = Inr '''' \<and>
     elems (DesugarBootClasspath (Ptr x)) = [] \<and>
     elems (DesugarClasspath (Ptr x)) = [] \<and>
     elems (Strings (Ptr x)) = []\<close>
  by (cases x) (simp_all add: len_def)

theorem rendering_total_on_empty_witness:
  \<open>JavaSourcepath (Ptr nil) = Inr ''-sourcepath ""'' \<and>
   JavaClasspath (Ptr nil) = Inr '''' \<and>
   JavaProcessorpath (Ptr nil) = Inr '''' \<and>
   JavaBootClasspath (Ptr nil) True = Inr ''-bootclasspath ""'' \<and>
   JavaBootClasspath (Ptr nil) False = Inr '''' \<and>
   JavaSystemModules (Ptr nil) True = Inr ''--system=none'' \<and>
   JavaSystemModules (Ptr nil) False = Inr '''' \<and>
   DesugarBootClasspath (Ptr nil) = nil \<and>
   DesugarClasspath (Ptr nil) = nil \<and>
   Strings (Ptr nil) = Slice [] \<and>
   JavaSourcepath (Ptr (Slice [])) = Inr ''-sourcepath ""'' \<and>
   JavaSystemModules (Ptr (Slice [])) True = Inr ''--system=none'' \<and>
   DesugarBootClasspath (Ptr (Slice [])) = Slice [] \<and>
   DesugarClasspath (Ptr (Slice [])) = Slice []\<close>
  using rendering_total_on_empty [of nil] rendering_total_on_empty [of "Slice []"]
  by (simp add: len_def)

section \<open>Properties of the stages\<close>

lemma elems_append: "elems (append s t) = elems s @ elems t"
  by simp

lemma JavaBootClasspath_returns: "\<exists>s. JavaBootClasspath (Ptr x) forceEmpty = Inr s"
  by simp

lemma JavaSourcepath_returns: "\<exists>s. JavaSourcepath (Ptr x) = Inr s"
  by simp

lemma JavaClasspath_returns: "\<exists>s. JavaClasspath (Ptr x) = Inr s"
  by simp

text \<open>The templates with their placeholders replaced, for any assignment \<open>env\<close>.\<close>

lemma expand_javac:
  \<open>expand env Text (Command javac) =
     ''rm -rf "'' @ env ''outDir'' @ ''" "'' @ env ''annoDir'' @ ''" && mkdir -p "'' @
     env ''outDir'' @ ''" "'' @ env ''annoDir'' @ ''" && '' @
     env ''config.JavacWrapper'' @ env ''config.JavacCmd'' @ '' '' @
     env ''config.JavacHeapFlags'' @ '' '' @ env ''config.CommonJdkFlags'' @ '' '' @
     env ''javacFlags'' @ '' '' @ env ''sourcepath'' @ '' '' @ env ''bootClasspath'' @ '' '' @
     env ''classpath'' @ '' -source '' @ env ''javaVersion'' @ '' -target '' @
     env ''javaVersion'' @ '' -d '' @ env ''outDir'' @ '' -s '' @ env ''annoDir'' @ '' @'' @
     env ''out'' @ ''.rsp && '' @ env ''config.SoongZipCmd'' @ '' -jar -o '' @ env ''out'' @
     '' -C '' @ env ''outDir'' @ '' -D '' @ env ''outDir''\<close>
  by (simp add: javac_def isVarChar_def)

lemma expand_javac_rsp: "expand env Text (RspfileContent javac) = env ''in''"
  by (simp add: javac_def isVarChar_def)

lemma expand_combineJar:
  "expand env Text (Command combineJar) =
     env ''config.MergeZipsCmd'' @ '' -j '' @ env ''jarArgs'' @ '' '' @ env ''out'' @ '' '' @
     env ''in''"
  by (simp add: combineJar_def isVarChar_def)

lemma TransformJarsToJar_eq:
  "TransformJarsToJar ctx outputFile jars manifest stripDirs =
     ctx\<lparr>builds := builds ctx @ [\<lparr>
       Rule = combineJar,
       Description = ''combine jars'',
       Output = outputFile,
       Input = None,
       Inputs = jars,
       Implicits = (case manifest of Some m \<Rightarrow> Slice [m] | None \<Rightarrow> nil),
       Args = [''jarArgs'' \<mapsto>
         Join ((case manifest of Some m \<Rightarrow> [''-m '' @ String m] | None \<Rightarrow> []) @
               (if stripDirs then [''-D''] else [])) '' '']\<rparr>]\<rparr>"
  by (cases manifest) (simp_all add: TransformJarsToJar_def ModuleBuild_def)

lemma TransformJarsToJar_inj:
  "TransformJarsToJar ctx outputFile jars' manifest stripDirs =
     TransformJarsToJar ctx outputFile jars manifest stripDirs \<longleftrightarrow> jars' = jars"
proof
  assume "TransformJarsToJar ctx outputFile jars' manifest stripDirs =
     TransformJarsToJar ctx outputFile jars manifest stripDirs"
  then have "map Inputs (builds (TransformJarsToJar ctx outputFile jars' manifest stripDirs)) =
     map Inputs (builds (TransformJarsToJar ctx outputFile jars manifest stripDirs))"
    by simp
  then show "jars' = jars"
    by (simp add: TransformJarsToJar_eq)
next
  assume "jars' = jars"
  then show "TransformJarsToJar ctx outputFile jars' manifest stripDirs =
     TransformJarsToJar ctx outputFile jars manifest stripDirs"
    by simp
qed

text \<open>
  Claim C2. In \<^verbatim>\<open>transformJavaToClasses\<close>, when the version of the flags is
  \<^verbatim>\<open>1.9\<close> the argument \<^verbatim>\<open>bootClasspath\<close> is what
  \<^verbatim>\<open>JavaSystemModules\<close> renders from the system modules, the system modules are
  appended to the implicit dependencies (after the caller's and the source archives,
  before the classpath), and the boot classpath of the flags has no part in the result:
  replacing it changes nothing. For any other version the argument is what
  \<^verbatim>\<open>JavaBootClasspath\<close> renders from the boot classpath, its entries are the ones
  appended, and the system modules have no part in the result.
\<close>

theorem version_selects_one_classpath:
  "(javaVersion flags = ''1.9'' \<longrightarrow>
      (\<forall>b. transformJavaToClasses ctx outputFile srcFiles srcJars (flags\<lparr>bootClasspath := b\<rparr>)
             deps suffix desc rule =
           transformJavaToClasses ctx outputFile srcFiles srcJars flags deps suffix desc rule) \<and>
      (\<forall>e. JavaSystemModules (Ptr (systemModules flags)) (Device ctx) = Inl e \<longrightarrow>
           transformJavaToClasses ctx outputFile srcFiles srcJars flags deps suffix desc rule =
             Inl e) \<and>
      (\<forall>s. JavaSystemModules (Ptr (systemModules flags)) (Device ctx) = Inr s \<longrightarrow>
           (\<exists>p. transformJavaToClasses ctx outputFile srcFiles srcJars flags deps suffix desc rule =
                  Inr (ctx\<lparr>builds := builds ctx @ [p]\<rparr>) \<and>
                Args p ''bootClasspath'' = Some s \<and>
                elems (Implicits p) =
                  elems deps @ elems srcJars @ elems (systemModules flags) @
                  elems (classpath flags)))) \<and>
   (javaVersion flags \<noteq> ''1.9'' \<longrightarrow>
      (\<forall>m. transformJavaToClasses ctx outputFile srcFiles srcJars (flags\<lparr>systemModules := m\<rparr>)
             deps suffix desc rule =
           transformJavaToClasses ctx outputFile srcFiles srcJars flags deps suffix desc rule) \<and>
      (\<exists>p s. JavaBootClasspath (Ptr (bootClasspath flags)) (Device ctx) = Inr s \<and>
           transformJavaToClasses ctx outputFile srcFiles srcJars flags deps suffix desc rule =
             Inr (ctx\<lparr>builds := builds ctx @ [p]\<rparr>) \<and>
           Args p ''bootClasspath'' = Some s \<and>
           elems (Implicits p) =
             elems deps @ elems srcJars @ elems (bootClasspath flags) @
             elems (classpath flags)))"
proof (intro conjI impI allI)
  fix b assume "javaVersion flags = ''1.9''"
  then show "transformJavaToClasses ctx outputFile srcFiles srcJars (flags\<lparr>bootClasspath := b\<rparr>)
             deps suffix desc rule =
           transformJavaToClasses ctx outputFile srcFiles srcJars flags deps suffix desc rule"
    by (simp add: transformJavaToClasses_def)
next
  fix e assume "javaVersion flags = ''1.9''"
    and "JavaSystemModules (Ptr (systemModules flags)) (Device ctx) = Inl e"
  then show "transformJavaToClasses ctx outputFile srcFiles srcJars flags deps suffix desc rule = Inl e"
    by (simp add: transformJavaToClasses_def)
next
  fix s assume v: "javaVersion flags = ''1.9''"
    and s: "JavaSystemModules (Ptr (systemModules flags)) (Device ctx) = Inr s"
  obtain sp where sp: "JavaSourcepath (Ptr srcJars) = Inr sp"
    using JavaSourcepath_returns by blast
  obtain cp where cp: "JavaClasspath (Ptr (classpath flags)) = Inr cp"
    using JavaClasspath_returns by blast
  show "\<exists>p. transformJavaToClasses ctx outputFile srcFiles srcJars flags deps suffix desc rule =
                  Inr (ctx\<lparr>builds := builds ctx @ [p]\<rparr>) \<and>
                Args p ''bootClasspath'' = Some s \<and>
                elems (Implicits p) =
                  elems deps @ elems srcJars @ elems (systemModules flags) @
                  elems (classpath flags)"
    unfolding transformJavaToClasses_def ModuleBuild_def Let_def
    using v s sp cp
    apply (simp del: JavaSourcepath.simps JavaClasspath.simps JavaSystemModules.simps append.simps)
    apply (rule exI, intro conjI, rule refl)
    apply (simp_all del: append.simps add: elems_append)
    done
next
  fix m assume "javaVersion flags \<noteq> ''1.9''"
  then show "transformJavaToClasses ctx outputFile srcFiles srcJars (flags\<lparr>systemModules := m\<rparr>)
             deps suffix desc rule =
           transformJavaToClasses ctx outputFile srcFiles srcJars flags deps suffix desc rule"
    by (simp add: transformJavaToClasses_def)
next
  assume v: "javaVersion flags \<noteq> ''1.9''"
  obtain s where s: "JavaBootClasspath (Ptr (bootClasspath flags)) (Device ctx) = Inr s"
    using JavaBootClasspath_returns by blast
  obtain sp where sp: "JavaSourcepath (Ptr srcJars) = Inr sp"
    using JavaSourcepath_returns by blast
  obtain cp where cp: "JavaClasspath (Ptr (classpath flags)) = Inr cp"
    using JavaClasspath_returns by blast
  show "\<exists>p s. JavaBootClasspath (Ptr (bootClasspath flags)) (Device ctx) = Inr s \<and>
           transformJavaToClasses ctx outputFile srcFiles srcJars flags deps suffix desc rule =
             Inr (ctx\<lparr>builds := builds ctx @ [p]\<rparr>) \<and>
           Args p ''bootClasspath'' = Some s \<and>
           elems (Implicits p) =
             elems deps @ elems srcJars @ elems (bootClasspath flags) @
             elems (classpath flags)"
    unfolding transformJavaToClasses_def ModuleBuild_def Let_def
    using v s sp cp
    apply (simp del: JavaSourcepath.simps JavaClasspath.simps JavaBootClasspath.simps append.simps)
    apply (rule exI, intro conjI, rule refl)
    apply (simp_all del: append.simps add: elems_append)
    done
qed

theorem version_selects_one_classpath_witness:
  "map (\<lambda>p. (Args p ''bootClasspath'', Implicits p))
     (declared (transformJavaToClasses (exampleContext True) (PathOf ''out/m/classes.jar'')
        (Slice [PathOf ''A.java'']) nil (exampleFlags ''1.9'') nil '''' ''javac'' javac)) =
     [(Some ''--system=jdk9/'', Slice [PathOf ''jdk9/lib/modules'', PathOf ''lib.jar''])] \<and>
   map (\<lambda>p. (Args p ''bootClasspath'', Implicits p))
     (declared (transformJavaToClasses (exampleContext True) (PathOf ''out/m/classes.jar'')
        (Slice [PathOf ''A.java'']) nil (exampleFlags ''1.8'') nil '''' ''javac'' javac)) =
     [(Some ''-bootclasspath core.jar:ext.jar'',
       Slice [PathOf ''core.jar'', PathOf ''ext.jar'', PathOf ''lib.jar''])]"
  using version_selects_one_classpath [of "exampleFlags ''1.9''" "exampleContext True"
      "PathOf ''out/m/classes.jar''" "Slice [PathOf ''A.java'']" nil nil "''''" "''javac''" javac]
    version_selects_one_classpath [of "exampleFlags ''1.8''" "exampleContext True"
      "PathOf ''out/m/classes.jar''" "Slice [PathOf ''A.java'']" nil nil "''''" "''javac''" javac]
  by (simp add: transformJavaToClasses_def exampleFlags_def exampleContext_def ModuleBuild_def
        len_def TrimSuffix_def HasSuffix_def)

text \<open>
  What \<^verbatim>\<open>transformJavaToClasses\<close> does, in both of its outcomes. It panics exactly
  when the version is \<^verbatim>\<open>1.9\<close> and there are two system modules or more;
  otherwise it declares one invocation.
\<close>

lemma transformJavaToClasses_panics:
  assumes "javaVersion flags = ''1.9''" and "2 \<le> len (systemModules flags)"
  shows "transformJavaToClasses ctx outputFile srcFiles srcJars flags deps suffix desc rule =
           Inl (Panic ''more than one system module'')"
  using assms by (simp add: transformJavaToClasses_def del: append.simps)

lemma JavaSystemModules_returns:
  "\<not> 2 \<le> len x \<Longrightarrow> \<exists>s. JavaSystemModules (Ptr x) forceEmpty = Inr s"
  by simp

lemma transformJavaToClasses_declares_one:
  assumes "\<not> (javaVersion flags = ''1.9'' \<and> 2 \<le> len (systemModules flags))"
  shows "\<exists>p. transformJavaToClasses ctx outputFile srcFiles srcJars flags deps suffix desc rule =
           Inr (ctx\<lparr>builds := builds ctx @ [p]\<rparr>) \<and>
         Rule p = rule \<and> Description p = desc \<and> Output p = outputFile \<and>
         Input p = None \<and> Inputs p = srcFiles \<and>
         elems (Implicits p) =
           elems deps @ elems srcJars @
           elems (if javaVersion flags = ''1.9'' then systemModules flags
                  else bootClasspath flags) @
           elems (classpath flags) \<and>
         Args p ''javacFlags'' = Some (javacFlags flags) \<and>
         Args p ''javaVersion'' = Some (javaVersion flags) \<and>
         Args p ''outDir'' = Some (PathForModuleOut ctx (''classes'' @ suffix)) \<and>
         Args p ''annoDir'' = Some (PathForModuleOut ctx (''anno'' @ suffix))"
proof -
  have "\<exists>s. (if javaVersion flags = ''1.9''
      then JavaSystemModules (Ptr (systemModules flags)) (Device ctx)
      else JavaBootClasspath (Ptr (bootClasspath flags)) (Device ctx)) = Inr s"
    using assms JavaSystemModules_returns [of "systemModules flags" "Device ctx"]
      JavaBootClasspath_returns [of "bootClasspath flags" "Device ctx"]
    by (cases "javaVersion flags = ''1.9''")
      (simp_all del: JavaSystemModules.simps JavaBootClasspath.simps)
  then obtain s where s: "(if javaVersion flags = ''1.9''
      then JavaSystemModules (Ptr (systemModules flags)) (Device ctx)
      else JavaBootClasspath (Ptr (bootClasspath flags)) (Device ctx)) = Inr s"
    by blast
  obtain sp where sp: "JavaSourcepath (Ptr srcJars) = Inr sp"
    using JavaSourcepath_returns by blast
  obtain cp where cp: "JavaClasspath (Ptr (classpath flags)) = Inr cp"
    using JavaClasspath_returns by blast
  show ?thesis
    unfolding transformJavaToClasses_def ModuleBuild_def Let_def
    using s sp cp
    apply (cases "javaVersion flags = ''1.9''")
    subgoal
      apply (simp del: JavaSourcepath.simps JavaClasspath.simps JavaSystemModules.simps
               JavaBootClasspath.simps append.simps)
      apply (rule exI, intro conjI, rule refl)
      apply (simp_all del: append.simps add: elems_append)
      done
    subgoal
      apply (simp del: JavaSourcepath.simps JavaClasspath.simps JavaSystemModules.simps
               JavaBootClasspath.simps append.simps)
      apply (rule exI, intro conjI, rule refl)
      apply (simp_all del: append.simps add: elems_append)
      done
    done
qed

text \<open>The three ways through \<^verbatim>\<open>RunErrorProne\<close>.\<close>

lemma RunErrorProne_configured:
  "jar \<noteq> '''' \<Longrightarrow>
     RunErrorProne ModuleErrorf jar ctx outputFile srcFiles srcJars flags =
       transformJavaToClasses ctx outputFile srcFiles srcJars flags nil
         ''-errorprone'' ''errorprone'' errorprone"
  by (simp add: RunErrorProne_def)

lemma RunErrorProne_report_returned:
  "ModuleErrorf ctx ''cannot build with Error Prone, missing external/error_prone?'' = Inr ctx1 \<Longrightarrow>
     RunErrorProne ModuleErrorf '''' ctx outputFile srcFiles srcJars flags =
       transformJavaToClasses ctx1 outputFile srcFiles srcJars flags nil
         ''-errorprone'' ''errorprone'' errorprone"
  by (simp add: RunErrorProne_def)

lemma RunErrorProne_report_aborted:
  "ModuleErrorf ctx ''cannot build with Error Prone, missing external/error_prone?'' = Inl e \<Longrightarrow>
     RunErrorProne ModuleErrorf '''' ctx outputFile srcFiles srcJars flags = Inl e"
  by (simp add: RunErrorProne_def)

text \<open>
  Claim C3, as the code has it. With the Error Prone jar configured,
  \<^verbatim>\<open>RunErrorProne\<close> is \<^verbatim>\<open>transformJavaToClasses\<close> with the
  \<^verbatim>\<open>errorprone\<close> rule, the suffix \<^verbatim>\<open>-errorprone\<close> and no extra
  dependencies: it declares one \<^verbatim>\<open>errorprone\<close> invocation and reports nothing,
  except that it panics with \<^verbatim>\<open>more than one system module\<close>, declaring nothing,
  when the version is \<^verbatim>\<open>1.9\<close> and there are two system modules or more. With the
  jar not configured, \<^verbatim>\<open>RunErrorProne\<close> first calls \<^verbatim>\<open>ctx.ModuleErrorf\<close>
  with a message that names what is missing (\<^verbatim>\<open>external/error_prone\<close>), before
  anything is declared, and has no abort of its own. If the call does not return, nothing
  is declared. If it returns, \<^verbatim>\<open>RunErrorProne\<close> does on the context the call left
  exactly what it does with the jar configured: one \<^verbatim>\<open>errorprone\<close> invocation
  is declared, with the same panic in the same case.
\<close>

theorem RunErrorProne_reports_and_goes_on:
  "(\<forall>jar. jar \<noteq> '''' \<longrightarrow>
      RunErrorProne ModuleErrorf jar ctx outputFile srcFiles srcJars flags =
        transformJavaToClasses ctx outputFile srcFiles srcJars flags nil
          ''-errorprone'' ''errorprone'' errorprone) \<and>
   (\<forall>jar. jar \<noteq> '''' \<and> javaVersion flags = ''1.9'' \<and> 2 \<le> len (systemModules flags) \<longrightarrow>
      RunErrorProne ModuleErrorf jar ctx outputFile srcFiles srcJars flags =
        Inl (Panic ''more than one system module'')) \<and>
   (\<forall>jar. jar \<noteq> '''' \<and> \<not> (javaVersion flags = ''1.9'' \<and> 2 \<le> len (systemModules flags)) \<longrightarrow>
      (\<exists>p. RunErrorProne ModuleErrorf jar ctx outputFile srcFiles srcJars flags =
             Inr (ctx\<lparr>builds := builds ctx @ [p]\<rparr>) \<and>
           Rule p = errorprone \<and> Description p = ''errorprone'' \<and> Output p = outputFile \<and>
           Input p = None \<and> Inputs p = srcFiles \<and>
           elems (Implicits p) =
             elems srcJars @
             elems (if javaVersion flags = ''1.9'' then systemModules flags
                    else bootClasspath flags) @
             elems (classpath flags) \<and>
           Args p ''javacFlags'' = Some (javacFlags flags) \<and>
           Args p ''javaVersion'' = Some (javaVersion flags) \<and>
           Args p ''outDir'' = Some (PathForModuleOut ctx ''classes-errorprone'') \<and>
           Args p ''annoDir'' = Some (PathForModuleOut ctx ''anno-errorprone''))) \<and>
   (\<forall>e. ModuleErrorf ctx ''cannot build with Error Prone, missing external/error_prone?'' = Inl e \<longrightarrow>
      RunErrorProne ModuleErrorf '''' ctx outputFile srcFiles srcJars flags = Inl e) \<and>
   (\<forall>ctx1 jar.
      ModuleErrorf ctx ''cannot build with Error Prone, missing external/error_prone?'' = Inr ctx1 \<and>
      jar \<noteq> '''' \<longrightarrow>
      RunErrorProne ModuleErrorf '''' ctx outputFile srcFiles srcJars flags =
        RunErrorProne ModuleErrorf jar ctx1 outputFile srcFiles srcJars flags) \<and>
   (\<forall>ctx1.
      ModuleErrorf ctx ''cannot build with Error Prone, missing external/error_prone?'' = Inr ctx1 \<and>
      javaVersion flags = ''1.9'' \<and> 2 \<le> len (systemModules flags) \<longrightarrow>
      RunErrorProne ModuleErrorf '''' ctx outputFile srcFiles srcJars flags =
        Inl (Panic ''more than one system module'')) \<and>
   (\<forall>ctx1.
      ModuleErrorf ctx ''cannot build with Error Prone, missing external/error_prone?'' = Inr ctx1 \<and>
      \<not> (javaVersion flags = ''1.9'' \<and> 2 \<le> len (systemModules flags)) \<longrightarrow>
      (\<exists>p. RunErrorProne ModuleErrorf '''' ctx outputFile srcFiles srcJars flags =
             Inr (ctx1\<lparr>builds := builds ctx1 @ [p]\<rparr>) \<and>
           Rule p = errorprone \<and> Description p = ''errorprone'' \<and> Output p = outputFile \<and>
           Input p = None \<and> Inputs p = srcFiles \<and>
           elems (Implicits p) =
             elems srcJars @
             elems (if javaVersion flags = ''1.9'' then systemModules flags
                    else bootClasspath flags) @
             elems (classpath flags) \<and>
           Args p ''javacFlags'' = Some (javacFlags flags) \<and>
           Args p ''javaVersion'' = Some (javaVersion flags) \<and>
           Args p ''outDir'' = Some (PathForModuleOut ctx1 ''classes-errorprone'') \<and>
           Args p ''annoDir'' = Some (PathForModuleOut ctx1 ''anno-errorprone'')))"
proof (intro conjI allI impI)
  fix jar :: string assume "jar \<noteq> ''''"
  then show "RunErrorProne ModuleErrorf jar ctx outputFile srcFiles srcJars flags =
        transformJavaToClasses ctx outputFile srcFiles srcJars flags nil
          ''-errorprone'' ''errorprone'' errorprone"
    by (rule RunErrorProne_configured)
next
  fix jar :: string
  assume "jar \<noteq> '''' \<and> javaVersion flags = ''1.9'' \<and> 2 \<le> len (systemModules flags)"
  then show "RunErrorProne ModuleErrorf jar ctx outputFile srcFiles srcJars flags =
        Inl (Panic ''more than one system module'')"
    by (simp add: RunErrorProne_configured transformJavaToClasses_panics)
next
  fix jar :: string
  assume a: "jar \<noteq> '''' \<and>
    \<not> (javaVersion flags = ''1.9'' \<and> 2 \<le> len (systemModules flags))"
  then have "\<not> (javaVersion flags = ''1.9'' \<and> 2 \<le> len (systemModules flags))"
    by blast
  from transformJavaToClasses_declares_one [OF this, of ctx outputFile srcFiles srcJars nil
      "''-errorprone''" "''errorprone''" errorprone] a
  show "\<exists>p. RunErrorProne ModuleErrorf jar ctx outputFile srcFiles srcJars flags =
             Inr (ctx\<lparr>builds := builds ctx @ [p]\<rparr>) \<and>
           Rule p = errorprone \<and> Description p = ''errorprone'' \<and> Output p = outputFile \<and>
           Input p = None \<and> Inputs p = srcFiles \<and>
           elems (Implicits p) =
             elems srcJars @
             elems (if javaVersion flags = ''1.9'' then systemModules flags
                    else bootClasspath flags) @
             elems (classpath flags) \<and>
           Args p ''javacFlags'' = Some (javacFlags flags) \<and>
           Args p ''javaVersion'' = Some (javaVersion flags) \<and>
           Args p ''outDir'' = Some (PathForModuleOut ctx ''classes-errorprone'') \<and>
           Args p ''annoDir'' = Some (PathForModuleOut ctx ''anno-errorprone'')"
    by (simp add: RunErrorProne_configured)
next
  fix e
  assume "ModuleErrorf ctx ''cannot build with Error Prone, missing external/error_prone?'' = Inl e"
  then show "RunErrorProne ModuleErrorf '''' ctx outputFile srcFiles srcJars flags = Inl e"
    by (rule RunErrorProne_report_aborted)
next
  fix ctx1 and jar :: string
  assume "ModuleErrorf ctx ''cannot build with Error Prone, missing external/error_prone?'' = Inr ctx1 \<and>
      jar \<noteq> ''''"
  then show "RunErrorProne ModuleErrorf '''' ctx outputFile srcFiles srcJars flags =
        RunErrorProne ModuleErrorf jar ctx1 outputFile srcFiles srcJars flags"
    by (simp add: RunErrorProne_configured RunErrorProne_report_returned)
next
  fix ctx1
  assume "ModuleErrorf ctx ''cannot build with Error Prone, missing external/error_prone?'' = Inr ctx1 \<and>
      javaVersion flags = ''1.9'' \<and> 2 \<le> len (systemModules flags)"
  then show "RunErrorProne ModuleErrorf '''' ctx outputFile srcFiles srcJars flags =
        Inl (Panic ''more than one system module'')"
    by (simp add: RunErrorProne_report_returned transformJavaToClasses_panics)
next
  fix ctx1
  assume a: "ModuleErrorf ctx ''cannot build with Error Prone, missing external/error_prone?'' = Inr ctx1 \<and>
      \<not> (javaVersion flags = ''1.9'' \<and> 2 \<le> len (systemModules flags))"
  then have "\<not> (javaVersion flags = ''1.9'' \<and> 2 \<le> len (systemModules flags))"
    by blast
  from transformJavaToClasses_declares_one [OF this, of ctx1 outputFile srcFiles srcJars nil
      "''-errorprone''" "''errorprone''" errorprone] a
  show "\<exists>p. RunErrorProne ModuleErrorf '''' ctx outputFile srcFiles srcJars flags =
             Inr (ctx1\<lparr>builds := builds ctx1 @ [p]\<rparr>) \<and>
           Rule p = errorprone \<and> Description p = ''errorprone'' \<and> Output p = outputFile \<and>
           Input p = None \<and> Inputs p = srcFiles \<and>
           elems (Implicits p) =
             elems srcJars @
             elems (if javaVersion flags = ''1.9'' then systemModules flags
                    else bootClasspath flags) @
             elems (classpath flags) \<and>
           Args p ''javacFlags'' = Some (javacFlags flags) \<and>
           Args p ''javaVersion'' = Some (javaVersion flags) \<and>
           Args p ''outDir'' = Some (PathForModuleOut ctx1 ''classes-errorprone'') \<and>
           Args p ''annoDir'' = Some (PathForModuleOut ctx1 ''anno-errorprone'')"
    by (simp add: RunErrorProne_report_returned)
qed

theorem RunErrorProne_reports_and_goes_on_witness:
  "map (ruleName \<circ> Rule)
     (declared (RunErrorProne abortOnError ''error_prone.jar'' (exampleContext False)
        (PathOf ''out/m/classes.jar'') (Slice [PathOf ''A.java'']) nil (exampleFlags ''1.9''))) =
     [''errorprone''] \<and>
   RunErrorProne abortOnError ''error_prone.jar'' (exampleContext False)
       (PathOf ''out/m/classes.jar'') (Slice [PathOf ''A.java'']) nil
       ((exampleFlags ''1.9'')\<lparr>systemModules :=
          Slice [PathOf ''a/lib/modules'', PathOf ''b/lib/modules'']\<rparr>) =
     Inl (Panic ''more than one system module'') \<and>
   RunErrorProne abortOnError '''' (exampleContext False) (PathOf ''out/m/classes.jar'')
       (Slice [PathOf ''A.java'']) nil (exampleFlags ''1.9'') =
     Inl (Panic ''cannot build with Error Prone, missing external/error_prone?'') \<and>
   RunErrorProne collectError '''' (exampleContext False) (PathOf ''out/m/classes.jar'')
       (Slice [PathOf ''A.java'']) nil (exampleFlags ''1.9'') =
     RunErrorProne collectError ''error_prone.jar''
       ((exampleContext False)\<lparr>errs :=
          [''cannot build with Error Prone, missing external/error_prone?'']\<rparr>)
       (PathOf ''out/m/classes.jar'') (Slice [PathOf ''A.java'']) nil (exampleFlags ''1.9'') \<and>
   map (ruleName \<circ> Rule)
     (declared (RunErrorProne collectError '''' (exampleContext False)
        (PathOf ''out/m/classes.jar'') (Slice [PathOf ''A.java'']) nil (exampleFlags ''1.9''))) =
     [''errorprone''] \<and>
   RunErrorProne collectError '''' (exampleContext False) (PathOf ''out/m/classes.jar'')
       (Slice [PathOf ''A.java'']) nil
       ((exampleFlags ''1.9'')\<lparr>systemModules :=
          Slice [PathOf ''a/lib/modules'', PathOf ''b/lib/modules'']\<rparr>) =
     Inl (Panic ''more than one system module'')"
  using RunErrorProne_reports_and_goes_on [of abortOnError "exampleContext False"
      "PathOf ''out/m/classes.jar''" "Slice [PathOf ''A.java'']" nil "exampleFlags ''1.9''"]
    RunErrorProne_reports_and_goes_on [of abortOnError "exampleContext False"
      "PathOf ''out/m/classes.jar''" "Slice [PathOf ''A.java'']" nil
      "(exampleFlags ''1.9'')\<lparr>systemModules :=
          Slice [PathOf ''a/lib/modules'', PathOf ''b/lib/modules'']\<rparr>"]
    RunErrorProne_reports_and_goes_on [of collectError "exampleContext False"
      "PathOf ''out/m/classes.jar''" "Slice [PathOf ''A.java'']" nil "exampleFlags ''1.9''"]
    RunErrorProne_reports_and_goes_on [of collectError "exampleContext False"
      "PathOf ''out/m/classes.jar''" "Slice [PathOf ''A.java'']" nil
      "(exampleFlags ''1.9'')\<lparr>systemModules :=
          Slice [PathOf ''a/lib/modules'', PathOf ''b/lib/modules'']\<rparr>"]
  by (simp add: RunErrorProne_def transformJavaToClasses_def abortOnError_def collectError_def
        exampleContext_def exampleFlags_def ModuleBuild_def len_def errorprone_def
        TrimSuffix_def HasSuffix_def)

text \<open>
  Claim C3, as it is stated, fails: with no Error Prone jar and a context whose
  \<^verbatim>\<open>ModuleErrorf\<close> records the error and returns, the error is reported and the
  \<^verbatim>\<open>errorprone\<close> invocation is declared all the same.
\<close>

theorem RunErrorProne_declares_without_jar:
  "map (ruleName \<circ> Rule)
     (declared (RunErrorProne collectError '''' (exampleContext True) (PathOf ''out/m/classes.jar'')
        (Slice [PathOf ''A.java'', PathOf ''B.java'']) nil (exampleFlags ''1.8''))) =
     [''errorprone''] \<and>
   map_sum id errs
     (RunErrorProne collectError '''' (exampleContext True) (PathOf ''out/m/classes.jar'')
        (Slice [PathOf ''A.java'', PathOf ''B.java'']) nil (exampleFlags ''1.8'')) =
     Inr [''cannot build with Error Prone, missing external/error_prone?'']"
  by (simp add: RunErrorProne_def collectError_def transformJavaToClasses_def exampleContext_def
        exampleFlags_def ModuleBuild_def len_def errorprone_def)

text \<open>
  Claim C4, as the code has it. \<^verbatim>\<open>TransformJavaToClasses\<close> with two source files,
  no source archive, an empty classpath, an empty boot classpath and version
  \<^verbatim>\<open>1.8\<close> declares one \<^verbatim>\<open>javac\<close> invocation. Its sourcepath argument is
  \<^verbatim>\<open>-sourcepath ""\<close>, its classpath argument is empty, and its command has
  \<^verbatim>\<open>-source 1.8 -target 1.8\<close>. The boot-classpath argument is
  \<^verbatim>\<open>-bootclasspath ""\<close> for a device module (\<open>forceEmpty\<close> is
  \<^verbatim>\<open>ctx.Device()\<close>) and empty for a host module. The response file lists the two
  sources.
\<close>

theorem TransformJavaToClasses_1_8_empty:
  assumes "javaVersion flags = ''1.8''"
    and "len (classpath flags) = 0"
    and "len (bootClasspath flags) = 0"
    and "len srcJars = 0"
  shows \<open>\<exists>p. TransformJavaToClasses ctx outputFile (Slice [src1, src2]) srcJars flags deps =
           Inr (ctx\<lparr>builds := builds ctx @ [p]\<rparr>) \<and>
         Rule p = javac \<and>
         Inputs p = Slice [src1, src2] \<and>
         Implicits p = deps \<and>
         Args p ''sourcepath'' = Some ''-sourcepath ""'' \<and>
         Args p ''classpath'' = Some '''' \<and>
         Args p ''bootClasspath'' = Some (if Device ctx then ''-bootclasspath ""'' else '''') \<and>
         Args p ''javaVersion'' = Some ''1.8'' \<and>
         command config p =
           ''rm -rf "'' @ PathForModuleOut ctx ''classes'' @ ''" "'' @
           PathForModuleOut ctx ''anno'' @ ''" && mkdir -p "'' @
           PathForModuleOut ctx ''classes'' @ ''" "'' @ PathForModuleOut ctx ''anno'' @
           ''" && '' @ config ''config.JavacWrapper'' @ config ''config.JavacCmd'' @ '' '' @
           config ''config.JavacHeapFlags'' @ '' '' @ config ''config.CommonJdkFlags'' @ '' '' @
           javacFlags flags @ '' -sourcepath "" '' @
           (if Device ctx then ''-bootclasspath ""'' else '''') @
           ''  -source 1.8 -target 1.8 -d '' @ PathForModuleOut ctx ''classes'' @ '' -s '' @
           PathForModuleOut ctx ''anno'' @ '' @'' @ String outputFile @ ''.rsp && '' @
           config ''config.SoongZipCmd'' @ '' -jar -o '' @ String outputFile @ '' -C '' @
           PathForModuleOut ctx ''classes'' @ '' -D '' @ PathForModuleOut ctx ''classes'' \<and>
         rspfileContent config p = String src1 @ '' '' @ String src2\<close>
  using assms
  unfolding TransformJavaToClasses_def transformJavaToClasses_def ModuleBuild_def Let_def
  apply (cases "Device ctx")
  subgoal
    apply (simp add: len_def)
    apply (rule exI, intro conjI, rule refl)
    apply (simp_all add: command_def rspfileContent_def expand_javac expand_javac_rsp
             ninjaEnv_def inputs_def)
    done
  subgoal
    apply (simp add: len_def)
    apply (rule exI, intro conjI, rule refl)
    apply (simp_all add: command_def rspfileContent_def expand_javac expand_javac_rsp
             ninjaEnv_def inputs_def)
    done
  done

theorem TransformJavaToClasses_1_8_empty_witness:
  \<open>map (command exampleConfig)
     (declared (TransformJavaToClasses (exampleContext True) (PathOf ''out/m/classes.jar'')
        (Slice [PathOf ''A.java'', PathOf ''B.java'']) nil (emptyFlags ''1.8'') nil)) =
     [''rm -rf "out/m/classes" "out/m/anno" && mkdir -p "out/m/classes" "out/m/anno" && '' @
      ''javac -J-Xmx2048M -encoding UTF-8 -Xlint -sourcepath "" -bootclasspath ""  '' @
      ''-source 1.8 -target 1.8 '' @
      ''-d out/m/classes -s out/m/anno @out/m/classes.jar.rsp && '' @
      ''soong_zip -jar -o out/m/classes.jar -C out/m/classes -D out/m/classes''] \<and>
   map (rspfileContent exampleConfig)
     (declared (TransformJavaToClasses (exampleContext True) (PathOf ''out/m/classes.jar'')
        (Slice [PathOf ''A.java'', PathOf ''B.java'']) nil (emptyFlags ''1.8'') nil)) =
     [''A.java B.java'']\<close>
proof -
  have h: "javaVersion (emptyFlags ''1.8'') = ''1.8''"
    "len (classpath (emptyFlags ''1.8'')) = 0"
    "len (bootClasspath (emptyFlags ''1.8'')) = 0"
    "len (nil :: classpath) = 0"
    by (simp_all add: emptyFlags_def len_def)
  from TransformJavaToClasses_1_8_empty [OF h, of "exampleContext True"
      "PathOf ''out/m/classes.jar''" "PathOf ''A.java''" "PathOf ''B.java''" nil exampleConfig]
  show ?thesis
    by (auto simp: exampleContext_def exampleConfig_def emptyFlags_def)
qed

text \<open>
  Claim C4, as it is stated, fails for a host module: \<^verbatim>\<open>ctx.Device()\<close> is false,
  so the empty boot classpath renders as the empty string and the command has no
  \<^verbatim>\<open>-bootclasspath\<close> flag.
\<close>

theorem TransformJavaToClasses_host_no_bootclasspath:
  \<open>map (arg ''bootClasspath'')
     (declared (TransformJavaToClasses (exampleContext False) (PathOf ''out/m/classes.jar'')
        (Slice [PathOf ''A.java'', PathOf ''B.java'']) nil (emptyFlags ''1.8'') nil)) =
     [Some ''''] \<and>
   map (command exampleConfig)
     (declared (TransformJavaToClasses (exampleContext False) (PathOf ''out/m/classes.jar'')
        (Slice [PathOf ''A.java'', PathOf ''B.java'']) nil (emptyFlags ''1.8'') nil)) =
     [''rm -rf "out/m/classes" "out/m/anno" && mkdir -p "out/m/classes" "out/m/anno" && '' @
      ''javac -J-Xmx2048M -encoding UTF-8 -Xlint -sourcepath ""   -source 1.8 -target 1.8 '' @
      ''-d out/m/classes -s out/m/anno @out/m/classes.jar.rsp && '' @
      ''soong_zip -jar -o out/m/classes.jar -C out/m/classes -D out/m/classes'']\<close>
  by code_simp

text \<open>
  Claim C7. \<^verbatim>\<open>TransformJarsToJar\<close> declares one \<^verbatim>\<open>combineJar\<close> invocation
  whose inputs are the archives it was given, as the same sequence. The command is a fixed
  prefix (the merge tool, the manifest and strip arguments, the output) followed by the
  archives in that order. An invocation for another sequence of archives differs from it
  in the inputs alone, and two sequences give the same declaration only when they are the
  same sequence.
\<close>

theorem TransformJarsToJar_keeps_order:
  "\<exists>p. TransformJarsToJar ctx outputFile jars manifest stripDirs =
         ctx\<lparr>builds := builds ctx @ [p]\<rparr> \<and>
       Rule p = combineJar \<and>
       Inputs p = jars \<and>
       Args p ''jarArgs'' =
         Some (Join ((case manifest of Some m \<Rightarrow> [''-m '' @ String m] | None \<Rightarrow> []) @
                     (if stripDirs then [''-D''] else [])) '' '') \<and>
       command config p =
         config ''config.MergeZipsCmd'' @ '' -j '' @
         Join ((case manifest of Some m \<Rightarrow> [''-m '' @ String m] | None \<Rightarrow> []) @
               (if stripDirs then [''-D''] else [])) '' '' @
         '' '' @ String outputFile @ '' '' @ Join (map String (elems jars)) '' '' \<and>
       (\<forall>jars'. TransformJarsToJar ctx outputFile jars' manifest stripDirs =
          ctx\<lparr>builds := builds ctx @ [p\<lparr>Inputs := jars'\<rparr>]\<rparr>) \<and>
       ((TransformJarsToJar ctx outputFile jars'' manifest stripDirs =
         TransformJarsToJar ctx outputFile jars manifest stripDirs) = (jars'' = jars))"
proof (rule exI, intro conjI)
  show "TransformJarsToJar ctx outputFile jars'' manifest stripDirs =
      TransformJarsToJar ctx outputFile jars manifest stripDirs \<longleftrightarrow> jars'' = jars"
    by (rule TransformJarsToJar_inj)
qed (rule TransformJarsToJar_eq,
    simp_all add: TransformJarsToJar_eq command_def expand_combineJar ninjaEnv_def inputs_def)

theorem TransformJarsToJar_keeps_order_witness:
  "map (command exampleConfig)
     (builds (TransformJarsToJar (exampleContext True) (PathOf ''out/m/combined.jar'')
        (Slice [PathOf ''A.jar'', PathOf ''B.jar'']) None False)) =
     [''merge_zips -j  out/m/combined.jar A.jar B.jar''] \<and>
   map (command exampleConfig)
     (builds (TransformJarsToJar (exampleContext True) (PathOf ''out/m/combined.jar'')
        (Slice [PathOf ''B.jar'', PathOf ''A.jar'']) (Some (PathOf ''manifest.txt'')) True)) =
     [''merge_zips -j -m manifest.txt -D out/m/combined.jar B.jar A.jar'']"
  using TransformJarsToJar_keeps_order [of "exampleContext True" "PathOf ''out/m/combined.jar''"
      "Slice [PathOf ''A.jar'', PathOf ''B.jar'']" None False exampleConfig nil]
    TransformJarsToJar_keeps_order [of "exampleContext True" "PathOf ''out/m/combined.jar''"
      "Slice [PathOf ''B.jar'', PathOf ''A.jar'']" "Some (PathOf ''manifest.txt'')" True
      exampleConfig nil]
  by (auto simp: exampleContext_def exampleConfig_def)

text \<open>
  Claim C8. \<^verbatim>\<open>TransformDesugar\<close> declares one \<^verbatim>\<open>desugar\<close> invocation. The
  boot classpath is rendered as one string \<^verbatim>\<open>--bootclasspath_entry e\<close> for each
  entry and the classpath as one string \<^verbatim>\<open>--classpath_entry e\<close> for each entry, in
  the order of the entries; the argument \<^verbatim>\<open>classpathFlags\<close> is these strings, boot
  classpath first, with a space between them. The implicit dependencies are the entries
  of the boot classpath followed by the entries of the classpath.
\<close>

theorem TransformDesugar_per_entry:
  "\<exists>p. TransformDesugar ctx outputFile classesJar flags = ctx\<lparr>builds := builds ctx @ [p]\<rparr> \<and>
       Rule p = desugar \<and>
       elems (DesugarBootClasspath (Ptr (bootClasspath flags))) =
         map (\<lambda>e. ''--bootclasspath_entry '' @ String e) (elems (bootClasspath flags)) \<and>
       elems (DesugarClasspath (Ptr (classpath flags))) =
         map (\<lambda>e. ''--classpath_entry '' @ String e) (elems (classpath flags)) \<and>
       Args p ''classpathFlags'' =
         Some (Join (map (\<lambda>e. ''--bootclasspath_entry '' @ String e) (elems (bootClasspath flags)) @
                     map (\<lambda>e. ''--classpath_entry '' @ String e) (elems (classpath flags))) '' '') \<and>
       elems (Implicits p) = elems (bootClasspath flags) @ elems (classpath flags)"
proof -
  have b: "elems (DesugarBootClasspath (Ptr x)) =
      map (\<lambda>e. ''--bootclasspath_entry '' @ String e) (elems x)" for x
    by (cases x) simp_all
  have c: "elems (DesugarClasspath (Ptr x)) =
      map (\<lambda>e. ''--classpath_entry '' @ String e) (elems x)" for x
    by (cases x) simp_all
  show ?thesis
    unfolding TransformDesugar_def ModuleBuild_def Let_def
    apply (rule exI, intro conjI, rule refl)
    apply (simp_all del: append.simps DesugarBootClasspath.simps DesugarClasspath.simps
             add: elems_append b c)
    done
qed

theorem TransformDesugar_per_entry_witness:
  "map (\<lambda>p. (Args p ''classpathFlags'', elems (Implicits p)))
     (builds (TransformDesugar (exampleContext True) (PathOf ''out/m/desugar.jar'')
        (PathOf ''out/m/classes.jar'') (exampleFlags ''1.8''))) =
     [(Some ''--bootclasspath_entry core.jar --bootclasspath_entry ext.jar --classpath_entry lib.jar'',
       [PathOf ''core.jar'', PathOf ''ext.jar'', PathOf ''lib.jar''])]"
  using TransformDesugar_per_entry [of "exampleContext True" "PathOf ''out/m/desugar.jar''"
      "PathOf ''out/m/classes.jar''" "exampleFlags ''1.8''"]
  by (auto simp: exampleContext_def exampleFlags_def)

end
